theory Spec2Isabelle
  imports Complex_Main
begin

section \<open>Numbers of the element maps\<close>

text \<open>
  The element maps compute on \<open>amrex::ParticleReal\<close>.  They are read here in exact
  real arithmetic.  An operation that has no real value (a division by zero, the square
  root of a negative number, the arc sine outside \<open>[-1, 1]\<close>, the tangent at a pole, a
  negative power of zero) yields the error value \<open>Undef\<close>, which every later operation
  passes on.  \<open>Undef\<close> stands for the non-finite numbers of the code, an infinity or a
  NaN alike.  A comparison with an \<open>Undef\<close> operand is false, as a comparison with a NaN
  is.  Rounding and overflow are not modelled for these maps.  The boundary test of the
  aperture, whose outcome on the boundary depends on the rounding, has an arithmetic of
  its own (section Aperture).
\<close>

datatype val = Fin real | Undef

instantiation val :: "{plus, minus, uminus, times, inverse, abs}"
begin

definition plus_val :: "val \<Rightarrow> val \<Rightarrow> val" where
  "plus_val a b =
     (case a of Undef \<Rightarrow> Undef
      | Fin x \<Rightarrow> (case b of Undef \<Rightarrow> Undef | Fin y \<Rightarrow> Fin (x + y)))"

definition minus_val :: "val \<Rightarrow> val \<Rightarrow> val" where
  "minus_val a b =
     (case a of Undef \<Rightarrow> Undef
      | Fin x \<Rightarrow> (case b of Undef \<Rightarrow> Undef | Fin y \<Rightarrow> Fin (x - y)))"

definition uminus_val :: "val \<Rightarrow> val" where
  "uminus_val a = (case a of Undef \<Rightarrow> Undef | Fin x \<Rightarrow> Fin (- x))"

definition times_val :: "val \<Rightarrow> val \<Rightarrow> val" where
  "times_val a b =
     (case a of Undef \<Rightarrow> Undef
      | Fin x \<Rightarrow> (case b of Undef \<Rightarrow> Undef | Fin y \<Rightarrow> Fin (x * y)))"

definition divide_val :: "val \<Rightarrow> val \<Rightarrow> val" where
  "divide_val a b =
     (case a of Undef \<Rightarrow> Undef
      | Fin x \<Rightarrow> (case b of Undef \<Rightarrow> Undef
                  | Fin y \<Rightarrow> if y = 0 then Undef else Fin (x / y)))"

definition inverse_val :: "val \<Rightarrow> val" where
  "inverse_val a =
     (case a of Undef \<Rightarrow> Undef | Fin x \<Rightarrow> if x = 0 then Undef else Fin (inverse x))"

definition abs_val :: "val \<Rightarrow> val" where
  "abs_val a = (case a of Undef \<Rightarrow> Undef | Fin x \<Rightarrow> Fin \<bar>x\<bar>)"

instance ..

end

definition vsqrt :: "val \<Rightarrow> val" where
  "vsqrt a = (case a of Undef \<Rightarrow> Undef | Fin x \<Rightarrow> if x < 0 then Undef else Fin (sqrt x))"

definition vsin :: "val \<Rightarrow> val" where
  "vsin a = (case a of Undef \<Rightarrow> Undef | Fin x \<Rightarrow> Fin (sin x))"

definition vcos :: "val \<Rightarrow> val" where
  "vcos a = (case a of Undef \<Rightarrow> Undef | Fin x \<Rightarrow> Fin (cos x))"

definition vtan :: "val \<Rightarrow> val" where
  "vtan a = (case a of Undef \<Rightarrow> Undef | Fin x \<Rightarrow> if cos x = 0 then Undef else Fin (tan x))"

definition vsinh :: "val \<Rightarrow> val" where
  "vsinh a = (case a of Undef \<Rightarrow> Undef | Fin x \<Rightarrow> Fin (sinh x))"

definition vcosh :: "val \<Rightarrow> val" where
  "vcosh a = (case a of Undef \<Rightarrow> Undef | Fin x \<Rightarrow> Fin (cosh x))"

definition vasin :: "val \<Rightarrow> val" where
  "vasin a =
     (case a of Undef \<Rightarrow> Undef
      | Fin x \<Rightarrow> if x < - 1 \<or> 1 < x then Undef else Fin (arcsin x))"

text \<open>\<open>pow(a, n)\<close> with an integer exponent, as the maps call it (\<open>n\<close> is 2, 3 or -2).\<close>

definition vpow :: "val \<Rightarrow> int \<Rightarrow> val" where
  "vpow a n =
     (case a of Undef \<Rightarrow> Undef
      | Fin x \<Rightarrow> if 0 \<le> n then Fin (x ^ nat n)
                else if x = 0 then Undef else Fin (1 / x ^ nat (- n)))"

text \<open>The comparison \<open>a > b\<close>.\<close>

definition vgt :: "val \<Rightarrow> val \<Rightarrow> bool" where
  "vgt a b =
     (case a of Undef \<Rightarrow> False
      | Fin x \<Rightarrow> (case b of Undef \<Rightarrow> False | Fin y \<Rightarrow> y < x))"

text \<open>\<open>ablastr::constant::math::pi / 180\<close>, the factor from degrees to radians.\<close>

definition degree2rad :: real where
  "degree2rad = pi / 180"


section \<open>Particles and the reference particle\<close>

text \<open>
  A macro-particle as an element map sees it: the positions and the id of the AoS part
  \<open>p\<close> (\<open>p.pos(RealAoS::x)\<close>, \<open>p.pos(RealAoS::y)\<close>, \<open>p.pos(RealAoS::t)\<close>,
  \<open>p.id()\<close>) and the three momenta it receives by reference.  The id is a signed
  integer of the particle library; it is read here as a mathematical integer.
\<close>

record particle =
  pos_x :: val
  pos_y :: val
  pos_t :: val
  pid :: int
  mom_px :: val
  mom_py :: val
  mom_pt :: val

text \<open>
  The reference particle.  \<open>ReferenceParticle.H\<close> is not among the sources: the fields
  are those the element maps read and write, with the rest mass and the charge of the
  data model.  Its accessors \<open>beta()\<close>, \<open>beta_gamma()\<close> and \<open>rigidity_Tm()\<close> are
  parameters of the maps that call them.
\<close>

record RefPart =
  ref_x :: val
  ref_y :: val
  ref_z :: val
  ref_t :: val
  ref_px :: val
  ref_py :: val
  ref_pz :: val
  ref_pt :: val
  ref_s :: val
  ref_mass :: val
  ref_charge :: val


section \<open>Aperture\<close>

text \<open>
  The boundary test of the aperture computes in \<open>amrex::ParticleReal\<close>, a binary
  floating-point format that is fixed when the code is built.  Its arithmetic on finite
  numbers is a parameter of the map: the rounded quotient \<open>x / y\<close> for \<open>y \<noteq> 0\<close>, the
  square \<open>pow(u, 2)\<close> and the rounded sum \<open>a + b\<close>.  A result is a finite number, an
  infinity (after an overflow, or when a number other than zero is divided by zero) or a
  NaN.  The test squares a scaled coordinate before it compares, so the sign of an
  infinity plays no part in it.
\<close>

datatype fpnum = Num real | Infinite | NotANumber

record fparith =
  fp_div :: "real \<Rightarrow> real \<Rightarrow> fpnum"
  fp_pow2 :: "real \<Rightarrow> fpnum"
  fp_add :: "real \<Rightarrow> real \<Rightarrow> fpnum"

text \<open>
  The scaled coordinate \<open>x / d\<close>.  A position \<open>Undef\<close> stands for an infinity or a NaN
  alike; it is read as a NaN here.
\<close>

definition ap_div :: "fparith \<Rightarrow> val \<Rightarrow> real \<Rightarrow> fpnum" where
  "ap_div f x d =
     (case x of Undef \<Rightarrow> NotANumber
      | Fin r \<Rightarrow> if d = 0 then (if r = 0 then NotANumber else Infinite) else fp_div f r d)"

text \<open>\<open>pow(u, 2)\<close>.\<close>

definition ap_pow2 :: "fparith \<Rightarrow> fpnum \<Rightarrow> fpnum" where
  "ap_pow2 f u =
     (case u of Num r \<Rightarrow> fp_pow2 f r | Infinite \<Rightarrow> Infinite | NotANumber \<Rightarrow> NotANumber)"

text \<open>The sum of two squares: of the infinities only the positive one occurs.\<close>

definition ap_add :: "fparith \<Rightarrow> fpnum \<Rightarrow> fpnum \<Rightarrow> fpnum" where
  "ap_add f a b =
     (case a of NotANumber \<Rightarrow> NotANumber
      | Infinite \<Rightarrow>
          (case b of NotANumber \<Rightarrow> NotANumber | Infinite \<Rightarrow> Infinite | Num s \<Rightarrow> Infinite)
      | Num r \<Rightarrow>
          (case b of NotANumber \<Rightarrow> NotANumber | Infinite \<Rightarrow> Infinite
           | Num s \<Rightarrow> fp_add f r s))"

text \<open>The comparison \<open>a > 1\<close> of a square or of a sum of squares.\<close>

definition ap_gt1 :: "fpnum \<Rightarrow> bool" where
  "ap_gt1 a = (case a of Num r \<Rightarrow> 1 < r | Infinite \<Rightarrow> True | NotANumber \<Rightarrow> False)"

datatype Shape = rectangular | elliptical

record Aperture =
  m_shape :: Shape
  m_xmax :: real
  m_ymax :: real

definition Aperture_map :: "fparith \<Rightarrow> Aperture \<Rightarrow> particle \<Rightarrow> RefPart \<Rightarrow> particle" where
  "Aperture_map f a p refpart =
     (let x = pos_x p;
          y = pos_y p;
          id0 = pid p;
          u = ap_div f x (m_xmax a);
          v = ap_div f y (m_ymax a)
      in case m_shape a of
           rectangular \<Rightarrow>
             if ap_gt1 (ap_pow2 f u) \<or> ap_gt1 (ap_pow2 f v) then p\<lparr>pid := - id0\<rparr> else p
         | elliptical \<Rightarrow>
             if ap_gt1 (ap_add f (ap_pow2 f u) (ap_pow2 f v)) then p\<lparr>pid := - id0\<rparr> else p)"

text \<open>
  The values \<open>pow(u, 2)\<close> and \<open>pow(v, 2)\<close> as the map computes them, and the condition of
  the \<open>switch\<close> under which the id is negated: the scaled coordinates \<open>u = x / m_xmax\<close>,
  \<open>v = y / m_ymax\<close> violate the boundary of the shape.
\<close>

definition Aperture_usq :: "fparith \<Rightarrow> Aperture \<Rightarrow> particle \<Rightarrow> fpnum" where
  "Aperture_usq f a p = ap_pow2 f (ap_div f (pos_x p) (m_xmax a))"

definition Aperture_vsq :: "fparith \<Rightarrow> Aperture \<Rightarrow> particle \<Rightarrow> fpnum" where
  "Aperture_vsq f a p = ap_pow2 f (ap_div f (pos_y p) (m_ymax a))"

definition Aperture_violated :: "fparith \<Rightarrow> Aperture \<Rightarrow> particle \<Rightarrow> bool" where
  "Aperture_violated f a p =
     (case m_shape a of
        rectangular \<Rightarrow> ap_gt1 (Aperture_usq f a p) \<or> ap_gt1 (Aperture_vsq f a p)
      | elliptical \<Rightarrow> ap_gt1 (ap_add f (Aperture_usq f a p) (Aperture_vsq f a p)))"

text \<open>
  Double precision, the default format of \<open>ParticleReal\<close>: IEEE 754 binary64 with
  rounding to nearest, ties to even, gradual underflow and overflow to infinity.
  \<open>pow2i k\<close> is the power \<open>2 ^ k\<close>, \<open>binade r\<close> the exponent \<open>e\<close> with
  \<open>2 ^ e \<le> |r| < 2 ^ (e + 1)\<close>, and \<open>fl64 r\<close> the double nearest to \<open>r\<close>.  The square \<open>pow(u, 2)\<close> is taken as the
  correctly rounded square, which is what \<open>u * u\<close> is.
\<close>

definition pow2i :: "int \<Rightarrow> real" where
  "pow2i k = (if 0 \<le> k then 2 ^ nat k else 1 / 2 ^ nat (- k))"

definition round_even :: "real \<Rightarrow> int" where
  "round_even z =
     (let n = \<lfloor>z\<rfloor>
      in if z - of_int n < 1 / 2 then n
         else if 1 / 2 < z - of_int n then n + 1
         else if even n then n else n + 1)"

definition binade :: "real \<Rightarrow> int" where
  "binade r = \<lfloor>log 2 \<bar>r\<bar>\<rfloor>"

definition fl64 :: "real \<Rightarrow> fpnum" where
  "fl64 r =
     (if r = 0 then Num 0
      else let e = max (binade r) (- 1022);
               m = of_int (round_even (r * pow2i (52 - e))) * pow2i (e - 52)
           in if pow2i 1024 \<le> \<bar>m\<bar> then Infinite else Num m)"

definition double_arith :: fparith where
  "double_arith =
     \<lparr>fp_div = (\<lambda>x y. fl64 (x / y)), fp_pow2 = (\<lambda>u. fl64 (u\<^sup>2)),
      fp_add = (\<lambda>a b. fl64 (a + b))\<rparr>"

text \<open>
  What the statements about points off the boundary need of the arithmetic: a result of
  magnitude at most 2 is a finite number within \<open>tau\<close> of the exact result.
\<close>

definition fp_accurate :: "fparith \<Rightarrow> real \<Rightarrow> bool" where
  "fp_accurate f tau \<longleftrightarrow>
     (\<forall>x y. y \<noteq> 0 \<and> \<bar>x / y\<bar> \<le> 2 \<longrightarrow> (\<exists>r. fp_div f x y = Num r \<and> \<bar>r - x / y\<bar> \<le> tau))
     \<and> (\<forall>u. u\<^sup>2 \<le> 2 \<longrightarrow> (\<exists>r. fp_pow2 f u = Num r \<and> \<bar>r - u\<^sup>2\<bar> \<le> tau))
     \<and> (\<forall>a b. \<bar>a + b\<bar> \<le> 2 \<longrightarrow> (\<exists>r. fp_add f a b = Num r \<and> \<bar>r - (a + b)\<bar> \<le> tau))"


section \<open>Kicker\<close>

datatype UnitSystem = dimensionless | Tm

record Kicker =
  m_xkick :: real
  m_ykick :: real
  m_unit :: UnitSystem

definition Kicker_map ::
  "(RefPart \<Rightarrow> val) \<Rightarrow> Kicker \<Rightarrow> particle \<Rightarrow> RefPart \<Rightarrow> particle" where
  "Kicker_map rigidity_Tm k p refpart =
     (let x = pos_x p;
          y = pos_y p;
          t = pos_t p;
          px = mom_px p;
          py = mom_py p;
          pt = mom_pt p;
          dpx = (if m_unit k = Tm then Fin (m_xkick k) / rigidity_Tm refpart
                 else Fin (m_xkick k));
          dpy = (if m_unit k = Tm then Fin (m_ykick k) / rigidity_Tm refpart
                 else Fin (m_ykick k));
          pxout = px + dpx;
          pyout = py + dpy;
          ptout = pt
      in p\<lparr>pos_x := x, pos_y := y, pos_t := t,
            mom_px := pxout, mom_py := pyout, mom_pt := ptout\<rparr>)"


section \<open>DipEdge\<close>

record DipEdge =
  m_psi :: real
  m_rc :: real
  m_g :: real
  m_K2 :: real

definition DipEdge_map :: "DipEdge \<Rightarrow> particle \<Rightarrow> RefPart \<Rightarrow> particle" where
  "DipEdge_map e p refpart =
     (let x = pos_x p;
          y = pos_y p;
          px = mom_px p;
          py = mom_py p;
          R21 = vtan (Fin (m_psi e)) / Fin (DipEdge.m_rc e);
          R43 = - R21;
          vf = (Fin 1 + vpow (vsin (Fin (m_psi e))) 2) / vpow (vcos (Fin (m_psi e))) 3;
          vf = vf * (Fin (m_g e) * Fin (m_K2 e) / vpow (Fin (DipEdge.m_rc e)) 2);
          R43 = R43 + vf
      in p\<lparr>mom_px := px + R21 * x, mom_py := py + R43 * y\<rparr>)"


section \<open>ShortRF\<close>

record ShortRF =
  m_V :: real
  m_freq :: real
  m_phase :: real

text \<open>The reference map \<open>ShortRF::operator() (RefPart &)\<close>.\<close>

definition ShortRF_ref :: "ShortRF \<Rightarrow> RefPart \<Rightarrow> RefPart" where
  "ShortRF_ref e refpart =
     (let x = ref_x refpart;
          px = ref_px refpart;
          y = ref_y refpart;
          py = ref_py refpart;
          z = ref_z refpart;
          pz = ref_pz refpart;
          t = ref_t refpart;
          pt = ref_pt refpart;
          phi = Fin (m_phase e) * (Fin pi / Fin 180);
          bgi = vsqrt (vpow pt 2 - Fin 1);
          refpart = refpart\<lparr>ref_pt := pt - Fin (m_V e) * vcos phi\<rparr>;
          ptf = ref_pt refpart;
          bgf = vsqrt (vpow ptf 2 - Fin 1)
      in refpart\<lparr>ref_x := x, ref_y := y, ref_z := z, ref_t := t,
            ref_px := px * bgf / bgi, ref_py := py * bgf / bgi, ref_pz := pz * bgf / bgi\<rparr>)"


section \<open>Thick elements\<close>

text \<open>
  Modelled from the spec: \<open>mixin/thick.H\<close> is not among the sources.  A Thick element
  carries a total length and a slice count, which the element maps read as \<open>m_ds\<close> and
  \<open>nslice()\<close>; the constructor \<open>Thick(ds, nslice)\<close> stores them.
\<close>

record Thick =
  m_ds :: real
  m_nslice :: int

definition nslice :: "'a Thick_scheme \<Rightarrow> int" where
  "nslice e = m_nslice e"


section \<open>ExactSbend\<close>

record ExactSbend = Thick +
  m_phi :: real
  m_B :: real

text \<open>The constructor: the bend angle is given in degrees and stored in radians.\<close>

definition ExactSbend :: "real \<Rightarrow> real \<Rightarrow> real \<Rightarrow> int \<Rightarrow> ExactSbend" where
  "ExactSbend ds phi B n =
     \<lparr>m_ds = ds, m_nslice = n, m_phi = phi * degree2rad, m_B = B\<rparr>"

text \<open>The particle map \<open>ExactSbend::operator()\<close>.\<close>

definition ExactSbend_map ::
  "(RefPart \<Rightarrow> val) \<Rightarrow> (RefPart \<Rightarrow> val) \<Rightarrow> ExactSbend \<Rightarrow> particle \<Rightarrow> RefPart \<Rightarrow> particle"
  where
  "ExactSbend_map beta rigidity_Tm e p refpart =
     (let x = pos_x p;
          y = pos_y p;
          t = pos_t p;
          px = mom_px p;
          py = mom_py p;
          pt = mom_pt p;
          slice_phi = Fin (m_phi e) / Fin (of_int (nslice e));
          bet = beta refpart;
          rc = (if m_B e \<noteq> 0 then rigidity_Tm refpart / Fin (m_B e)
                else Fin (m_ds e) / Fin (m_phi e));
          pperp = vsqrt (vpow pt 2 - Fin 2 / bet * pt - vpow py 2 + Fin 1);
          pzi = vsqrt (vpow pperp 2 - vpow px 2);
          rho = rc + x;
          sin_phi = vsin slice_phi;
          cos_phi = vcos slice_phi;
          pxout = px * cos_phi + (pzi - rho / rc) * sin_phi;
          pyout = py;
          ptout = pt;
          pzf = vsqrt (vpow pperp 2 - vpow pxout 2);
          theta = slice_phi + vasin (px / pperp) - vasin (pxout / pperp)
      in p\<lparr>pos_x := - rc + rho * cos_phi + rc * (pzf + px * sin_phi - pzi * cos_phi),
            pos_y := y + theta * rc * py,
            pos_t := t - theta * rc * (pt - Fin 1 / bet) - Fin (m_phi e) * rc / bet,
            mom_px := pxout, mom_py := pyout, mom_pt := ptout\<rparr>)"

text \<open>The reference map \<open>ExactSbend::operator() (RefPart &)\<close>.\<close>

definition ExactSbend_ref ::
  "(RefPart \<Rightarrow> val) \<Rightarrow> (RefPart \<Rightarrow> val) \<Rightarrow> ExactSbend \<Rightarrow> RefPart \<Rightarrow> RefPart" where
  "ExactSbend_ref beta_gamma rigidity_Tm e refpart =
     (let x = ref_x refpart;
          px = ref_px refpart;
          y = ref_y refpart;
          py = ref_py refpart;
          z = ref_z refpart;
          pz = ref_pz refpart;
          t = ref_t refpart;
          pt = ref_pt refpart;
          s = ref_s refpart;
          slice_ds = Fin (m_ds e) / Fin (of_int (nslice e));
          theta = Fin (m_phi e) / Fin (of_int (nslice e));
          rc = (if m_B e \<noteq> 0 then rigidity_Tm refpart / Fin (m_B e)
                else Fin (m_ds e) / Fin (m_phi e));
          B = beta_gamma refpart / rc;
          sin_theta = vsin theta;
          cos_theta = vcos theta;
          refpart = refpart\<lparr>ref_px := px * cos_theta - pz * sin_theta,
                             ref_py := py,
                             ref_pz := pz * cos_theta + px * sin_theta,
                             ref_pt := pt\<rparr>;
          refpart = refpart\<lparr>ref_x := x + (ref_pz refpart - pz) / B,
                             ref_y := y + (theta / B) * py,
                             ref_z := z - (ref_px refpart - px) / B,
                             ref_t := t - (theta / B) * pt\<rparr>
      in refpart\<lparr>ref_s := s + slice_ds\<rparr>)"


section \<open>CFbend\<close>

record CFbend = Thick +
  m_rc :: real
  m_k :: real

definition CFbend :: "real \<Rightarrow> real \<Rightarrow> real \<Rightarrow> int \<Rightarrow> CFbend" where
  "CFbend ds rc k n = \<lparr>m_ds = ds, m_nslice = n, m_rc = rc, m_k = k\<rparr>"

text \<open>
  The particle map \<open>CFbend::operator()\<close>.  The first \<open>if\<close> writes \<open>x\<close>, \<open>pxout\<close> and
  \<open>t\<close> (and \<open>ptout = pt\<close> in both branches), the second writes \<open>y\<close> and \<open>pyout\<close>.
\<close>

definition CFbend_map :: "CFbend \<Rightarrow> particle \<Rightarrow> RefPart \<Rightarrow> particle" where
  "CFbend_map e p refpart =
     (let x = pos_x p;
          y = pos_y p;
          t = pos_t p;
          px = mom_px p;
          py = mom_py p;
          pt = mom_pt p;
          rc = Fin (CFbend.m_rc e);
          slice_ds = Fin (m_ds e) / Fin (of_int (nslice e));
          pt_ref = ref_pt refpart;
          betgam2 = vpow pt_ref 2 - Fin 1;
          bet = vsqrt (betgam2 / (Fin 1 + betgam2));
          gx = Fin (m_k e) + vpow rc (- 2);
          omegax = vsqrt \<bar>gx\<bar>;
          (xnew, pxout, tnew, ptout) =
            (if vgt gx (Fin 0) then
               (let sinx = vsin (omegax * slice_ds);
                    cosx = vcos (omegax * slice_ds);
                    r56 = slice_ds / betgam2
                      + (sinx - omegax * slice_ds) / (gx * omegax * vpow bet 2 * vpow rc 2)
                in (cosx * x + sinx / omegax * px - (Fin 1 - cosx) / (gx * bet * rc) * pt,
                    - omegax * sinx * x + cosx * px - sinx / (omegax * bet * rc) * pt,
                    sinx / (omegax * bet * rc) * x + (Fin 1 - cosx) / (gx * bet * rc) * px
                      + t + r56 * pt,
                    pt))
             else
               (let sinhx = vsinh (omegax * slice_ds);
                    coshx = vcosh (omegax * slice_ds);
                    r56 = slice_ds / betgam2
                      + (sinhx - omegax * slice_ds) / (gx * omegax * vpow bet 2 * vpow rc 2)
                in (coshx * x + sinhx / omegax * px - (Fin 1 - coshx) / (gx * bet * rc) * pt,
                    omegax * sinhx * x + coshx * px - sinhx / (omegax * bet * rc) * pt,
                    sinhx / (omegax * bet * rc) * x + (Fin 1 - coshx) / (gx * bet * rc) * px
                      + t + r56 * pt,
                    pt)));
          gy = - Fin (m_k e);
          omegay = vsqrt \<bar>gy\<bar>;
          (ynew, pyout) =
            (if vgt gy (Fin 0) then
               (let siny = vsin (omegay * slice_ds);
                    cosy = vcos (omegay * slice_ds)
                in (cosy * y + siny / omegay * py,
                    - omegay * siny * y + cosy * py))
             else
               (let sinhy = vsinh (omegay * slice_ds);
                    coshy = vcosh (omegay * slice_ds)
                in (coshy * y + sinhy / omegay * py,
                    omegay * sinhy * y + coshy * py)))
      in p\<lparr>pos_x := xnew, pos_y := ynew, pos_t := tnew,
            mom_px := pxout, mom_py := pyout, mom_pt := ptout\<rparr>)"

text \<open>The reference map \<open>CFbend::operator() (RefPart &)\<close>.\<close>

definition CFbend_ref :: "CFbend \<Rightarrow> RefPart \<Rightarrow> RefPart" where
  "CFbend_ref e refpart =
     (let x = ref_x refpart;
          px = ref_px refpart;
          y = ref_y refpart;
          py = ref_py refpart;
          z = ref_z refpart;
          pz = ref_pz refpart;
          t = ref_t refpart;
          pt = ref_pt refpart;
          s = ref_s refpart;
          slice_ds = Fin (m_ds e) / Fin (of_int (nslice e));
          theta = slice_ds / Fin (CFbend.m_rc e);
          B = vsqrt (vpow pt 2 - Fin 1) / Fin (CFbend.m_rc e);
          sin_theta = vsin theta;
          cos_theta = vcos theta;
          refpart = refpart\<lparr>ref_px := px * cos_theta - pz * sin_theta,
                             ref_py := py,
                             ref_pz := pz * cos_theta + px * sin_theta,
                             ref_pt := pt\<rparr>;
          refpart = refpart\<lparr>ref_x := x + (ref_pz refpart - pz) / B,
                             ref_y := y + (theta / B) * py,
                             ref_z := z - (ref_px refpart - px) / B,
                             ref_t := t - (theta / B) * pt\<rparr>
      in refpart\<lparr>ref_s := s + slice_ds\<rparr>)"


section \<open>Sample inputs\<close>

text \<open>
  Concrete inputs at which the theorems below are instantiated: a reference particle, a
  macro-particle, and an accessor of the reference particle that returns a given value.
\<close>

definition refpart0 :: RefPart where
  "refpart0 =
     \<lparr>ref_x = Fin 0, ref_y = Fin 0, ref_z = Fin 0, ref_t = Fin 0,
      ref_px = Fin 0, ref_py = Fin 0, ref_pz = Fin 1, ref_pt = Fin (- 2),
      ref_s = Fin 0, ref_mass = Fin 1, ref_charge = Fin 1\<rparr>"

definition particle0 :: particle where
  "particle0 =
     \<lparr>pos_x = Fin 1, pos_y = Fin 1, pos_t = Fin 0, pid = 7,
      mom_px = Fin 0, mom_py = Fin 0, mom_pt = Fin 0\<rparr>"

definition const_accessor :: "val \<Rightarrow> RefPart \<Rightarrow> val" where
  "const_accessor v refpart = v"


section \<open>Arithmetic with the error value\<close>

lemma val_plus_simps [simp]:
  "Fin x + Fin y = Fin (x + y)" "Undef + b = Undef" "a + Undef = Undef"
  by (simp_all add: plus_val_def split: val.splits)

lemma val_minus_simps [simp]:
  "Fin x - Fin y = Fin (x - y)" "Undef - b = Undef" "a - Undef = Undef"
  by (simp_all add: minus_val_def split: val.splits)

lemma val_times_simps [simp]:
  "Fin x * Fin y = Fin (x * y)" "Undef * b = Undef" "a * Undef = Undef"
  by (simp_all add: times_val_def split: val.splits)

lemma val_divide_simps [simp]:
  "Fin x / Fin y = (if y = 0 then Undef else Fin (x / y))" "Undef / b = Undef"
  "a / Undef = Undef"
  by (simp_all add: divide_val_def split: val.splits)

lemma val_uminus_simps [simp]:
  "- Fin x = Fin (- x)" "- Undef = Undef"
  by (simp_all add: uminus_val_def)

lemma val_abs_simps [simp]:
  "\<bar>Fin x\<bar> = Fin \<bar>x\<bar>" "\<bar>Undef\<bar> = Undef"
  by (simp_all add: abs_val_def)

lemma vsqrt_simps [simp]:
  "vsqrt (Fin x) = (if x < 0 then Undef else Fin (sqrt x))" "vsqrt Undef = Undef"
  by (simp_all add: vsqrt_def)

lemma vtrig_simps [simp]:
  "vsin (Fin x) = Fin (sin x)" "vsin Undef = Undef"
  "vcos (Fin x) = Fin (cos x)" "vcos Undef = Undef"
  "vsinh (Fin x) = Fin (sinh x)" "vsinh Undef = Undef"
  "vcosh (Fin x) = Fin (cosh x)" "vcosh Undef = Undef"
  "vtan (Fin x) = (if cos x = 0 then Undef else Fin (tan x))" "vtan Undef = Undef"
  by (simp_all add: vsin_def vcos_def vsinh_def vcosh_def vtan_def)

lemma vasin_simps [simp]:
  "vasin (Fin x) = (if x < - 1 \<or> 1 < x then Undef else Fin (arcsin x))"
  "vasin Undef = Undef"
  by (simp_all add: vasin_def)

lemma vpow_simps [simp]:
  "vpow (Fin x) 2 = Fin (x\<^sup>2)" "vpow (Fin x) 3 = Fin (x ^ 3)"
  "vpow (Fin x) (- 2) = (if x = 0 then Undef else Fin (1 / x\<^sup>2))"
  "vpow Undef n = Undef"
  by (simp_all add: vpow_def)

lemma vgt_simps [simp]:
  "vgt (Fin x) (Fin y) = (y < x)" "vgt Undef b = False" "vgt a Undef = False"
  by (simp_all add: vgt_def split: val.splits)

lemma val_add_Fin_assoc: "a + Fin x + Fin y = a + Fin (x + y)"
  by (cases a) simp_all

lemma val_add_Fin_zero [simp]: "a + Fin 0 = a"
  by (cases a) simp_all

lemma val_minus_neg: "b + Fin (- a) * y = b - Fin a * y"
  by (cases b; cases y) simp_all

lemma div_by_zero_val [simp]: "a / Fin 0 = Undef"
  by (cases a) simp_all

lemma div_by_zero_prod [simp]: "a / (Fin 0 * b * c) = Undef"
  by (cases a; cases b; cases c) simp_all


section \<open>Double precision\<close>

lemma pow2i_powr: "pow2i k = 2 powr (of_int k)"
  by (simp add: pow2i_def powr_real_of_int inverse_eq_divide)

lemma pow2i_pos [simp]: "0 < pow2i k"
  by (simp add: pow2i_powr)

lemma pow2i_add: "pow2i (j + k) = pow2i j * pow2i k"
  by (simp add: pow2i_powr powr_add)

lemma pow2i_mono: "j \<le> k \<Longrightarrow> pow2i j \<le> pow2i k"
  by (simp add: pow2i_powr)

lemma binade_eqI:
  assumes "pow2i k \<le> \<bar>r\<bar>" and "\<bar>r\<bar> < pow2i (k + 1)"
  shows "binade r = k"
proof -
  have pos: "0 < \<bar>r\<bar>"
    using assms(1) pow2i_pos [of k] by linarith
  have "2 powr (of_int k) \<le> \<bar>r\<bar> \<and> \<bar>r\<bar> < 2 powr (of_int k + 1)"
    using assms by (simp add: pow2i_powr)
  then show ?thesis
    unfolding binade_def using floor_log_eq_powr_iff [OF pos, of 2 k] by simp
qed

lemma round_even_err: "\<bar>of_int (round_even z) - z\<bar> \<le> 1 / 2"
  unfolding round_even_def Let_def by (auto; linarith)

lemma fl64_at:
  assumes "pow2i k \<le> \<bar>r\<bar>" and "\<bar>r\<bar> < pow2i (k + 1)" and "- 1022 \<le> k"
  shows "fl64 r =
    (if pow2i 1024 \<le> \<bar>of_int (round_even (r * pow2i (52 - k))) * pow2i (k - 52)\<bar> then Infinite
     else Num (of_int (round_even (r * pow2i (52 - k))) * pow2i (k - 52)))"
proof -
  have "0 < \<bar>r\<bar>"
    using assms(1) pow2i_pos [of k] by linarith
  then have "r \<noteq> 0"
    by simp
  moreover have "binade r = k"
    using assms(1,2) by (rule binade_eqI)
  ultimately show ?thesis
    using assms(3) by (simp add: fl64_def Let_def max_def)
qed

lemma fl64_5_13: "fl64 (5 / 13) = Num (6928614811339225 / 18014398509481984)"
  by (subst fl64_at [where k = "- 2"]) (simp_all add: pow2i_def round_even_def Let_def)

lemma fl64_12_13: "fl64 (12 / 13) = Num (4157168886803535 / 4503599627370496)"
  by (subst fl64_at [where k = "- 1"]) (simp_all add: pow2i_def round_even_def Let_def)

lemma fl64_usq:
  "fl64 ((6928614811339225 / 18014398509481984)\<^sup>2) = Num (5329703701030173 / 36028797018963968)"
  by (subst fl64_at [where k = "- 3"])
    (simp_all add: pow2i_def round_even_def Let_def power2_eq_square)

lemma fl64_vsq:
  "fl64 ((4157168886803535 / 4503599627370496)\<^sup>2) = Num (3837386664741725 / 4503599627370496)"
  by (subst fl64_at [where k = "- 1"])
    (simp_all add: pow2i_def round_even_def Let_def power2_eq_square)

lemma fl64_sum:
  "fl64 (5329703701030173 / 36028797018963968 + 3837386664741725 / 4503599627370496)
     = Num (4503599627370497 / 4503599627370496)"
  by (subst fl64_at [where k = 0]) (simp_all add: pow2i_def round_even_def Let_def)

lemma double_div [simp]: "y \<noteq> 0 \<Longrightarrow> ap_div double_arith (Fin x) y = fl64 (x / y)"
  by (simp add: ap_div_def double_arith_def)

lemma double_pow2 [simp]: "ap_pow2 double_arith (Num u) = fl64 (u\<^sup>2)"
  by (simp add: ap_pow2_def double_arith_def)

lemma double_add [simp]: "ap_add double_arith (Num a) (Num b) = fl64 (a + b)"
  by (simp add: ap_add_def double_arith_def)

lemma ap_gt1_Num [simp]: "ap_gt1 (Num r) = (1 < r)"
  by (simp add: ap_gt1_def)

lemma pow2i_nonneg [simp]: "0 \<le> pow2i k"
  using pow2i_pos [of k] by linarith

lemma abs_pow2i [simp]: "\<bar>pow2i k\<bar> = pow2i k"
  using pow2i_pos [of k] by linarith

lemma binade_le_one: assumes "r \<noteq> 0" and "\<bar>r\<bar> \<le> 2" shows "binade r \<le> 1"
proof -
  have "log 2 \<bar>r\<bar> \<le> log 2 2"
    using assms by (simp del: log_eq_one)
  then have "log 2 \<bar>r\<bar> \<le> 1"
    by simp
  then have "\<lfloor>log 2 \<bar>r\<bar>\<rfloor> \<le> 1"
    by (simp add: floor_le_iff)
  then show ?thesis
    by (simp add: binade_def)
qed

lemma fl64_accurate:
  assumes "\<bar>r\<bar> \<le> 2"
  shows "\<exists>m. fl64 r = Num m \<and> \<bar>m - r\<bar> \<le> 1 / 1000"
proof (cases "r = 0")
  case True
  then show ?thesis
    by (simp add: fl64_def)
next
  case False
  define e where "e = max (binade r) (- 1022)"
  define z where "z = r * pow2i (52 - e)"
  define m where "m = of_int (round_even z) * pow2i (e - 52)"
  have e1: "e \<le> 1"
    using binade_le_one [OF False assms] by (simp add: e_def)
  have "pow2i (52 - e) * pow2i (e - 52) = pow2i 0"
    by (simp add: pow2i_add [symmetric])
  then have unit: "pow2i (52 - e) * pow2i (e - 52) = 1"
    by (simp add: pow2i_def)
  have zr: "z * pow2i (e - 52) = r"
    using unit by (simp add: z_def mult.assoc)
  have "m - r = (of_int (round_even z) - z) * pow2i (e - 52)"
    using zr by (simp add: m_def algebra_simps)
  then have "\<bar>m - r\<bar> = \<bar>of_int (round_even z) - z\<bar> * pow2i (e - 52)"
    using pow2i_pos [of "e - 52"] by (simp add: abs_mult)
  also have "\<dots> \<le> 1 / 2 * pow2i (e - 52)"
    by (intro mult_right_mono round_even_err) simp
  also have "\<dots> \<le> 1 / 2 * pow2i (- 51)"
    using e1 by (intro mult_left_mono pow2i_mono) simp_all
  also have "\<dots> \<le> 1 / 1000"
    by (simp add: pow2i_def)
  finally have err: "\<bar>m - r\<bar> \<le> 1 / 1000" .
  have "\<bar>m\<bar> < 4"
    using err assms by linarith
  moreover have "(4::real) \<le> pow2i 1024"
    using pow2i_mono [of 2 1024] by (simp add: pow2i_def)
  ultimately have "\<not> pow2i 1024 \<le> \<bar>m\<bar>"
    by linarith
  then have "fl64 r = Num m"
    using False by (simp add: fl64_def Let_def e_def z_def m_def)
  with err show ?thesis
    by blast
qed

lemma double_arith_accurate: "fp_accurate double_arith (1 / 1000)"
proof -
  have d: "\<exists>r. fl64 (x / y) = Num r \<and> \<bar>r - x / y\<bar> \<le> 1 / 1000" if "\<bar>x / y\<bar> \<le> 2"
    for x y :: real
    using that by (rule fl64_accurate)
  have q: "\<exists>r. fl64 (u\<^sup>2) = Num r \<and> \<bar>r - u\<^sup>2\<bar> \<le> 1 / 1000" if "u\<^sup>2 \<le> 2" for u :: real
    using that by (intro fl64_accurate) simp
  have a: "\<exists>r. fl64 (a + b) = Num r \<and> \<bar>r - (a + b)\<bar> \<le> 1 / 1000" if "\<bar>a + b\<bar> \<le> 2"
    for a b :: real
    using that by (rule fl64_accurate)
  show ?thesis
    unfolding fp_accurate_def double_arith_def fparith.select_convs
    using d q a by blast
qed

lemma fl64_1: "fl64 1 = Num 1"
  by (subst fl64_at [where k = 0]) (simp_all add: pow2i_def round_even_def Let_def)

lemma fl64_2: "fl64 2 = Num 2"
  by (subst fl64_at [where k = 1]) (simp_all add: pow2i_def round_even_def Let_def)

lemma fl64_4: "fl64 4 = Num 4"
  by (subst fl64_at [where k = 2]) (simp_all add: pow2i_def round_even_def Let_def)

lemma fl64_half: "fl64 (1 / 2) = Num (1 / 2)"
  by (subst fl64_at [where k = "- 1"]) (simp_all add: pow2i_def round_even_def Let_def)

lemma fl64_quarter: "fl64 (1 / 4) = Num (1 / 4)"
  by (subst fl64_at [where k = "- 2"]) (simp_all add: pow2i_def round_even_def Let_def)

lemma fl64_3_5: "fl64 (3 / 5) = Num (5404319552844595 / 9007199254740992)"
  by (subst fl64_at [where k = "- 1"]) (simp_all add: pow2i_def round_even_def Let_def)

lemma fl64_4_5: "fl64 (4 / 5) = Num (3602879701896397 / 4503599627370496)"
  by (subst fl64_at [where k = "- 1"]) (simp_all add: pow2i_def round_even_def Let_def)

lemma fl64_3_5_sq:
  "fl64 ((5404319552844595 / 9007199254740992)\<^sup>2) = Num (3242591731706757 / 9007199254740992)"
  by (subst fl64_at [where k = "- 2"])
    (simp_all add: pow2i_def round_even_def Let_def power2_eq_square)

lemma fl64_4_5_sq:
  "fl64 ((3602879701896397 / 4503599627370496)\<^sup>2) = Num (1441151880758559 / 2251799813685248)"
  by (subst fl64_at [where k = "- 1"])
    (simp_all add: pow2i_def round_even_def Let_def power2_eq_square)

lemma fl64_3_4_5_sum:
  "fl64 (3242591731706757 / 9007199254740992 + 1441151880758559 / 2251799813685248) = Num 1"
  by (subst fl64_at [where k = 0]) (simp_all add: pow2i_def round_even_def Let_def)


section \<open>The aperture\<close>

lemma Aperture_map_eq:
  "Aperture_map f a p refpart = (if Aperture_violated f a p then p\<lparr>pid := - pid p\<rparr> else p)"
  by (simp add: Aperture_map_def Aperture_violated_def Aperture_usq_def Aperture_vsq_def Let_def
      split: Shape.splits)

lemma sq_close:
  fixes u U :: real
  assumes "\<bar>u - U\<bar> \<le> d" and "\<bar>U\<bar> \<le> B"
  shows "\<bar>u\<^sup>2 - U\<^sup>2\<bar> \<le> d * (2 * B + d)"
proof -
  have d0: "0 \<le> d"
    using assms(1) by linarith
  have "u\<^sup>2 - U\<^sup>2 = (u - U) * (u + U)"
    by (simp add: power2_eq_square algebra_simps)
  then have "\<bar>u\<^sup>2 - U\<^sup>2\<bar> = \<bar>u - U\<bar> * \<bar>u + U\<bar>"
    by (simp add: abs_mult)
  also have "\<dots> \<le> d * (2 * B + d)"
  proof (rule mult_mono)
    show "\<bar>u - U\<bar> \<le> d"
      by (rule assms(1))
    show "\<bar>u + U\<bar> \<le> 2 * B + d"
      using assms by linarith
    show "0 \<le> d"
      by (rule d0)
    show "0 \<le> \<bar>u + U\<bar>"
      by simp
  qed
  finally show ?thesis .
qed

lemma close_trans:
  fixes s P Q :: real
  assumes "\<bar>s - P\<bar> \<le> t" and "t \<le> c" and "\<bar>P - Q\<bar> \<le> e"
  shows "\<bar>s - Q\<bar> \<le> e + c"
  using assms by linarith

lemma gt_of_close:
  fixes s q :: real
  assumes "\<bar>s - q\<bar> \<le> e" and "1 + e < q"
  shows "1 < s"
  using assms by linarith

text \<open>The computed square of a scaled coordinate, from the accuracy of the arithmetic.\<close>

lemma computed_square:
  assumes acc: "fp_accurate f tau" and tau: "tau \<le> 1 / 1000"
    and d: "d \<noteq> 0" and B: "\<bar>x / d\<bar> \<le> B" and B1: "B \<le> 5 / 4"
  shows "\<exists>s. ap_pow2 f (ap_div f (Fin x) d) = Num s
    \<and> \<bar>s - (x / d)\<^sup>2\<bar> \<le> 1 / 1000 * (2 * B + 1 / 1000) + 1 / 1000"
proof -
  have "\<bar>x / d\<bar> \<le> 2"
    using B B1 by linarith
  with acc d obtain u where u: "fp_div f x d = Num u" and ue: "\<bar>u - x / d\<bar> \<le> tau"
    unfolding fp_accurate_def by blast
  have ue': "\<bar>u - x / d\<bar> \<le> 1 / 1000"
    using ue tau by linarith
  have uB: "\<bar>u\<bar> \<le> 1251 / 1000"
    using ue' B B1 by linarith
  have "\<bar>u\<bar>\<^sup>2 \<le> (1251 / 1000)\<^sup>2"
    using uB by (intro power_mono) simp_all
  then have "u\<^sup>2 \<le> 2"
    by (simp add: power2_eq_square)
  with acc obtain s where s: "fp_pow2 f u = Num s" and se: "\<bar>s - u\<^sup>2\<bar> \<le> tau"
    unfolding fp_accurate_def by blast
  have "\<bar>u\<^sup>2 - (x / d)\<^sup>2\<bar> \<le> 1 / 1000 * (2 * B + 1 / 1000)"
    using ue' B by (rule sq_close)
  with se tau have "\<bar>s - (x / d)\<^sup>2\<bar> \<le> 1 / 1000 * (2 * B + 1 / 1000) + 1 / 1000"
    by (rule close_trans)
  moreover have "ap_pow2 f (ap_div f (Fin x) d) = Num s"
    using d u s by (simp add: ap_div_def ap_pow2_def)
  ultimately show ?thesis
    by blast
qed

lemma abs_le_of_sq:
  fixes U :: real
  assumes "U\<^sup>2 \<le> 101 / 100"
  shows "\<bar>U\<bar> \<le> 1005 / 1000"
proof -
  have "U\<^sup>2 \<le> (1005 / 1000)\<^sup>2"
    using assms by (simp add: power2_eq_square)
  then have "\<bar>U\<bar> \<le> \<bar>1005 / 1000 :: real\<bar>"
    by (simp only: abs_le_square_iff)
  then show ?thesis
    by simp
qed

lemma elliptical_outside:
  assumes acc: "fp_accurate f tau" and tau: "tau \<le> 1 / 1000"
    and "m_xmax a \<noteq> 0" and "m_ymax a \<noteq> 0"
    and "pos_x p = Fin x" and "pos_y p = Fin y"
    and "m_shape a = elliptical"
    and sum: "(x / m_xmax a)\<^sup>2 + (y / m_ymax a)\<^sup>2 = 101 / 100"
  shows "Aperture_violated f a p"
proof -
  have "(x / m_xmax a)\<^sup>2 \<le> 101 / 100" "(y / m_ymax a)\<^sup>2 \<le> 101 / 100"
    using sum zero_le_power2 [of "x / m_xmax a"] zero_le_power2 [of "y / m_ymax a"]
    by linarith+
  then have U: "\<bar>x / m_xmax a\<bar> \<le> 1005 / 1000" and V: "\<bar>y / m_ymax a\<bar> \<le> 1005 / 1000"
    by (simp_all only: abs_le_of_sq)
  obtain s where s: "Aperture_usq f a p = Num s"
    and se: "\<bar>s - (x / m_xmax a)\<^sup>2\<bar> \<le> 1 / 1000 * (2 * (1005 / 1000) + 1 / 1000) + 1 / 1000"
    using computed_square [OF acc tau assms(3) U] assms(5) by (auto simp add: Aperture_usq_def)
  obtain t where t: "Aperture_vsq f a p = Num t"
    and te: "\<bar>t - (y / m_ymax a)\<^sup>2\<bar> \<le> 1 / 1000 * (2 * (1005 / 1000) + 1 / 1000) + 1 / 1000"
    using computed_square [OF acc tau assms(4) V] assms(6) by (auto simp add: Aperture_vsq_def)
  define P where "P = (x / m_xmax a)\<^sup>2"
  define Q where "Q = (y / m_ymax a)\<^sup>2"
  have "\<bar>s - P\<bar> \<le> 1 / 1000 * (2 * (1005 / 1000) + 1 / 1000) + 1 / 1000"
    and "\<bar>t - Q\<bar> \<le> 1 / 1000 * (2 * (1005 / 1000) + 1 / 1000) + 1 / 1000"
    and "P + Q = 101 / 100"
    using se te sum by (simp_all only: P_def Q_def)
  then have b: "\<bar>s - P\<bar> \<le> 4 / 1000" "\<bar>t - Q\<bar> \<le> 4 / 1000" "P + Q = 101 / 100"
    by simp_all
  have lo: "1002 / 1000 \<le> s + t"
    using b by linarith
  have hi: "s + t \<le> 2"
    using b by linarith
  from lo hi have "\<bar>s + t\<bar> \<le> 2"
    by linarith
  with acc obtain w where w: "fp_add f s t = Num w" and we: "\<bar>w - (s + t)\<bar> \<le> tau"
    unfolding fp_accurate_def by blast
  have "1 < w"
    using we tau lo by linarith
  then show ?thesis
    using assms(7) s t w by (simp add: Aperture_violated_def ap_add_def)
qed

lemma rectangular_outside:
  assumes acc: "fp_accurate f tau" and tau: "tau \<le> 1 / 1000"
    and "m_xmax a \<noteq> 0"
    and "pos_x p = Fin x"
    and "m_shape a = rectangular"
    and u: "\<bar>x / m_xmax a\<bar> = 12 / 10"
  shows "Aperture_violated f a p"
proof -
  have U: "\<bar>x / m_xmax a\<bar> \<le> 12 / 10"
    using u by simp
  obtain s where s: "Aperture_usq f a p = Num s"
    and se: "\<bar>s - (x / m_xmax a)\<^sup>2\<bar> \<le> 1 / 1000 * (2 * (12 / 10) + 1 / 1000) + 1 / 1000"
    using computed_square [OF acc tau assms(3) U] assms(4) by (auto simp add: Aperture_usq_def)
  have "(x / m_xmax a)\<^sup>2 = \<bar>x / m_xmax a\<bar>\<^sup>2"
    by (rule power2_abs [symmetric])
  also have "\<dots> = (12 / 10)\<^sup>2"
    by (simp only: u)
  also have "\<dots> = (144 / 100 :: real)"
    by (simp add: power2_eq_square)
  finally have "(x / m_xmax a)\<^sup>2 = 144 / 100" .
  with se have "\<bar>s - 144 / 100\<bar> \<le> 1 / 1000 * (2 * (12 / 10) + 1 / 1000) + 1 / 1000"
    by (simp only:)
  then have "1 < s"
    by (rule gt_of_close) simp
  then show ?thesis
    using assms(5) s by (simp add: Aperture_violated_def)
qed




text \<open>
  C9.  The aperture map changes nothing but, possibly, the sign of the id: the positions
  \<open>x\<close>, \<open>y\<close>, \<open>t\<close> and the momenta \<open>px\<close>, \<open>py\<close>, \<open>pt\<close> are those of the input, the
  id is negated exactly when the boundary is violated, and its absolute value is kept.
  The map returns the particle it was given, with that id: it neither removes the particle
  nor moves it elsewhere.  This holds for every arithmetic of \<open>ParticleReal\<close>.
\<close>

theorem Aperture_frame:
  "pos_x (Aperture_map f a p refpart) = pos_x p
   \<and> pos_y (Aperture_map f a p refpart) = pos_y p
   \<and> pos_t (Aperture_map f a p refpart) = pos_t p
   \<and> mom_px (Aperture_map f a p refpart) = mom_px p
   \<and> mom_py (Aperture_map f a p refpart) = mom_py p
   \<and> mom_pt (Aperture_map f a p refpart) = mom_pt p
   \<and> pid (Aperture_map f a p refpart) = (if Aperture_violated f a p then - pid p else pid p)
   \<and> \<bar>pid (Aperture_map f a p refpart)\<bar> = \<bar>pid p\<bar>
   \<and> Aperture_map f a p refpart = p\<lparr>pid := pid (Aperture_map f a p refpart)\<rparr>"
  by (simp add: Aperture_map_eq)

lemma violated_elliptical_1_1:
  "Aperture_violated double_arith \<lparr>m_shape = elliptical, m_xmax = 1, m_ymax = 1\<rparr> particle0"
  by (simp add: Aperture_violated_def Aperture_usq_def Aperture_vsq_def particle0_def
      fl64_1 fl64_2)

theorem Aperture_frame_witness:
  "pos_x (Aperture_map double_arith \<lparr>m_shape = elliptical, m_xmax = 1, m_ymax = 1\<rparr>
      particle0 refpart0) = Fin 1
   \<and> mom_px (Aperture_map double_arith \<lparr>m_shape = elliptical, m_xmax = 1, m_ymax = 1\<rparr>
      particle0 refpart0) = Fin 0
   \<and> Aperture_violated double_arith \<lparr>m_shape = elliptical, m_xmax = 1, m_ymax = 1\<rparr> particle0
   \<and> pid (Aperture_map double_arith \<lparr>m_shape = elliptical, m_xmax = 1, m_ymax = 1\<rparr>
      particle0 refpart0) = - 7"
  using Aperture_frame
      [of double_arith "\<lparr>m_shape = elliptical, m_xmax = 1, m_ymax = 1\<rparr>" particle0 refpart0]
    violated_elliptical_1_1
  by (simp add: particle0_def)

text \<open>
  C10.  The loss mark is an involution, not idempotent.  For a particle that violates the
  boundary the map negates the id whatever its sign; the particle still violates the
  boundary afterwards, so a second application gives back the original particle, which
  differs from the marked one unless the id is zero.  In particular the map turns the
  negative id of a particle that is already marked lost, and still out of bounds, into a
  positive one.  This holds for every arithmetic of \<open>ParticleReal\<close>.
\<close>

theorem Aperture_involution:
  assumes "Aperture_violated f a p"
  shows "pid (Aperture_map f a p refpart) = - pid p
       \<and> Aperture_violated f a (Aperture_map f a p refpart)
       \<and> Aperture_map f a (Aperture_map f a p refpart) refpart = p
       \<and> (pid p \<noteq> 0 \<longrightarrow>
            Aperture_map f a (Aperture_map f a p refpart) refpart \<noteq> Aperture_map f a p refpart)
       \<and> (pid p < 0 \<longrightarrow> 0 < pid (Aperture_map f a p refpart))"
proof -
  have "Aperture_usq f a (p\<lparr>pid := - pid p\<rparr>) = Aperture_usq f a p"
    and "Aperture_vsq f a (p\<lparr>pid := - pid p\<rparr>) = Aperture_vsq f a p"
    by (simp_all add: Aperture_usq_def Aperture_vsq_def)
  then have still: "Aperture_violated f a (p\<lparr>pid := - pid p\<rparr>)"
    using assms by (simp add: Aperture_violated_def split: Shape.splits)
  have differ: "p\<lparr>pid := - pid p\<rparr> \<noteq> p" if "pid p \<noteq> 0"
  proof
    assume "p\<lparr>pid := - pid p\<rparr> = p"
    then have "pid (p\<lparr>pid := - pid p\<rparr>) = pid p"
      by (rule arg_cong)
    with that show False
      by simp
  qed
  show ?thesis
    using assms still differ by (auto simp add: Aperture_map_eq)
qed

theorem Aperture_involution_witness:
  "Aperture_violated double_arith \<lparr>m_shape = rectangular, m_xmax = 1, m_ymax = 1\<rparr>
      (particle0\<lparr>pos_x := Fin 2, pid := - 7\<rparr>)
   \<and> pid (Aperture_map double_arith \<lparr>m_shape = rectangular, m_xmax = 1, m_ymax = 1\<rparr>
      (particle0\<lparr>pos_x := Fin 2, pid := - 7\<rparr>) refpart0) = 7
   \<and> Aperture_map double_arith \<lparr>m_shape = rectangular, m_xmax = 1, m_ymax = 1\<rparr>
       (Aperture_map double_arith \<lparr>m_shape = rectangular, m_xmax = 1, m_ymax = 1\<rparr>
          (particle0\<lparr>pos_x := Fin 2, pid := - 7\<rparr>) refpart0) refpart0
     = particle0\<lparr>pos_x := Fin 2, pid := - 7\<rparr>
   \<and> Aperture_map double_arith \<lparr>m_shape = rectangular, m_xmax = 1, m_ymax = 1\<rparr>
       (Aperture_map double_arith \<lparr>m_shape = rectangular, m_xmax = 1, m_ymax = 1\<rparr>
          (particle0\<lparr>pos_x := Fin 2, pid := - 7\<rparr>) refpart0) refpart0
     \<noteq> Aperture_map double_arith \<lparr>m_shape = rectangular, m_xmax = 1, m_ymax = 1\<rparr>
          (particle0\<lparr>pos_x := Fin 2, pid := - 7\<rparr>) refpart0"
proof -
  let ?a = "\<lparr>m_shape = rectangular, m_xmax = 1, m_ymax = 1\<rparr>"
  let ?p = "particle0\<lparr>pos_x := Fin 2, pid := - 7\<rparr>"
  have v: "Aperture_violated double_arith ?a ?p"
    by (simp add: Aperture_violated_def Aperture_usq_def Aperture_vsq_def particle0_def
        fl64_1 fl64_2 fl64_4)
  note t = Aperture_involution [OF v, of refpart0]
  from t have c1: "pid (Aperture_map double_arith ?a ?p refpart0) = - pid ?p"
    by (rule conjunct1)
  from t have c3:
    "Aperture_map double_arith ?a (Aperture_map double_arith ?a ?p refpart0) refpart0 = ?p"
    by blast
  from t have c4: "pid ?p \<noteq> 0 \<longrightarrow>
      Aperture_map double_arith ?a (Aperture_map double_arith ?a ?p refpart0) refpart0
        \<noteq> Aperture_map double_arith ?a ?p refpart0"
    by blast
  show ?thesis
  proof (intro conjI)
    show "Aperture_violated double_arith ?a ?p"
      by (rule v)
    show "pid (Aperture_map double_arith ?a ?p refpart0) = 7"
      using c1 by simp
    show "Aperture_map double_arith ?a (Aperture_map double_arith ?a ?p refpart0) refpart0 = ?p"
      by (rule c3)
    show "Aperture_map double_arith ?a (Aperture_map double_arith ?a ?p refpart0) refpart0
        \<noteq> Aperture_map double_arith ?a ?p refpart0"
      using c4 by simp
  qed
qed


section \<open>The kicker\<close>

text \<open>
  C6.  A kicker with \<open>xkick = 0\<close> and \<open>ykick = 0\<close> returns the particle it was given,
  positions and momenta unchanged: for every reference particle when the kicks are
  dimensionless, and, when they are given in T-m, for every reference particle whose
  rigidity is a number other than zero (the kick is then \<open>0 / rigidity = 0\<close>).
\<close>

theorem Kicker_zero_identity:
  assumes "m_xkick k = 0" and "m_ykick k = 0"
    and "m_unit k = Tm \<longrightarrow> (\<exists>g. g \<noteq> 0 \<and> rigidity_Tm refpart = Fin g)"
  shows "Kicker_map rigidity_Tm k p refpart = p"
proof (cases "m_unit k = Tm")
  case True
  with assms(3) obtain g where "g \<noteq> 0" and "rigidity_Tm refpart = Fin g"
    by auto
  with True assms(1,2) show ?thesis
    by (simp add: Kicker_map_def Let_def)
next
  case False
  with assms(1,2) show ?thesis
    by (simp add: Kicker_map_def Let_def)
qed

theorem Kicker_zero_identity_witness:
  "Kicker_map (const_accessor (Fin 3)) \<lparr>m_xkick = 0, m_ykick = 0, m_unit = Tm\<rparr>
      particle0 refpart0 = particle0
   \<and> Kicker_map (const_accessor (Fin 0)) \<lparr>m_xkick = 0, m_ykick = 0, m_unit = dimensionless\<rparr>
      particle0 refpart0 = particle0"
  using
    Kicker_zero_identity [of "\<lparr>m_xkick = 0, m_ykick = 0, m_unit = Tm\<rparr>"
      "const_accessor (Fin 3)" refpart0 particle0]
    Kicker_zero_identity [of "\<lparr>m_xkick = 0, m_ykick = 0, m_unit = dimensionless\<rparr>"
      "const_accessor (Fin 0)" refpart0 particle0]
  by (simp add: const_accessor_def)

text \<open>
  In T-m units and with a reference particle of rigidity zero, the kick is \<open>0 / 0\<close>: the
  momenta \<open>px\<close> and \<open>py\<close> of the result are the error value, not those of the input.
\<close>

theorem Kicker_zero_rigidity_counterexample:
  "Kicker_map (const_accessor (Fin 0)) \<lparr>m_xkick = 0, m_ykick = 0, m_unit = Tm\<rparr>
      particle0 refpart0 \<noteq> particle0
   \<and> mom_px (Kicker_map (const_accessor (Fin 0)) \<lparr>m_xkick = 0, m_ykick = 0, m_unit = Tm\<rparr>
        particle0 refpart0) = Undef
   \<and> mom_px particle0 = Fin 0"
  by (simp add: Kicker_map_def Let_def const_accessor_def particle0_def)


section \<open>The dipole edge\<close>

text \<open>
  C7.  With gap parameter \<open>g = 0\<close>, a pole-face angle \<open>psi\<close> with \<open>cos psi \<noteq> 0\<close> and a
  bend radius \<open>rc \<noteq> 0\<close>, the fringe term vanishes and the kick is that of the zero-gap
  matrix elements: \<open>px\<close> becomes \<open>px + (tan psi / rc) * x\<close>, \<open>py\<close> becomes
  \<open>py - (tan psi / rc) * y\<close>, and nothing else changes.
\<close>

theorem DipEdge_zero_gap:
  assumes "m_g e = 0" and "cos (m_psi e) \<noteq> 0" and "DipEdge.m_rc e \<noteq> 0"
  shows "DipEdge_map e p refpart =
    p\<lparr>mom_px := mom_px p + Fin (tan (m_psi e) / DipEdge.m_rc e) * pos_x p,
      mom_py := mom_py p - Fin (tan (m_psi e) / DipEdge.m_rc e) * pos_y p\<rparr>"
  using assms by (simp add: DipEdge_map_def Let_def val_minus_neg)

theorem DipEdge_zero_gap_witness:
  "m_g \<lparr>m_psi = pi / 4, m_rc = 2, m_g = 0, m_K2 = 1 / 2\<rparr> = 0
   \<and> cos (m_psi \<lparr>m_psi = pi / 4, m_rc = 2, m_g = 0, m_K2 = 1 / 2\<rparr>) \<noteq> 0
   \<and> DipEdge.m_rc \<lparr>m_psi = pi / 4, m_rc = 2, m_g = 0, m_K2 = 1 / 2\<rparr> \<noteq> 0
   \<and> DipEdge_map \<lparr>m_psi = pi / 4, m_rc = 2, m_g = 0, m_K2 = 1 / 2\<rparr> particle0 refpart0
       = particle0\<lparr>mom_px := Fin (1 / 2), mom_py := Fin (- (1 / 2))\<rparr>"
  using DipEdge_zero_gap
    [of "\<lparr>m_psi = pi / 4, m_rc = 2, m_g = 0, m_K2 = 1 / 2\<rparr>" particle0 refpart0]
  by (simp add: particle0_def cos_45 tan_45)


section \<open>The short RF cavity\<close>

text \<open>
  C8.  The reference map of the short RF cavity changes \<open>pt\<close> by the on-crest amount: the
  new \<open>pt\<close> is the old \<open>pt\<close> minus \<open>V * cos phi\<close>, where \<open>phi = phase * pi / 180\<close> is the
  synchronous phase \<open>phase\<close> (given in degrees) in radians.  The amount does not depend
  on the time coordinate \<open>t\<close> of the reference particle (another \<open>t\<close> gives the same
  new \<open>pt\<close>), and the positions \<open>x\<close>, \<open>y\<close>, \<open>z\<close>, \<open>t\<close> are unchanged.
\<close>

theorem ShortRF_ref_kick:
  "ref_pt (ShortRF_ref e refpart)
     = ref_pt refpart - Fin (m_V e * cos (m_phase e * (pi / 180)))
   \<and> ref_x (ShortRF_ref e refpart) = ref_x refpart
   \<and> ref_y (ShortRF_ref e refpart) = ref_y refpart
   \<and> ref_z (ShortRF_ref e refpart) = ref_z refpart
   \<and> ref_t (ShortRF_ref e refpart) = ref_t refpart
   \<and> ref_pt (ShortRF_ref e (refpart\<lparr>ref_t := t'\<rparr>)) = ref_pt (ShortRF_ref e refpart)"
  by (simp add: ShortRF_ref_def Let_def)


section \<open>The bends\<close>

lemma ExactSbend_ref_s:
  "nslice e \<noteq> 0 \<Longrightarrow>
   ref_s (ExactSbend_ref beta_gamma rigidity_Tm e refpart)
     = ref_s refpart + Fin (m_ds e / of_int (nslice e))"
  by (simp add: ExactSbend_ref_def Let_def)

lemma CFbend_ref_s:
  "nslice c \<noteq> 0 \<Longrightarrow>
   ref_s (CFbend_ref c refpart) = ref_s refpart + Fin (m_ds c / of_int (nslice c))"
  by (simp add: CFbend_ref_def Let_def)

lemma funpow_ref_s:
  fixes f :: "RefPart \<Rightarrow> RefPart"
  assumes "\<And>r. ref_s (f r) = ref_s r + Fin d"
  shows "ref_s ((f ^^ k) r) = ref_s r + Fin (of_nat k * d)"
proof (induction k)
  case 0
  show ?case by simp
next
  case (Suc k)
  have "ref_s ((f ^^ Suc k) r) = ref_s ((f ^^ k) r) + Fin d"
    by (simp add: assms)
  also have "\<dots> = ref_s r + Fin (of_nat k * d) + Fin d"
    by (simp only: Suc.IH)
  also have "\<dots> = ref_s r + Fin (of_nat (Suc k) * d)"
    by (simp add: val_add_Fin_assoc algebra_simps)
  finally show ?case .
qed

lemma slices_total: "1 \<le> n \<Longrightarrow> of_nat (nat n) * (d / of_int n) = (d::real)"
  by simp

text \<open>
  C4.  For an exact sector bend and a combined-function bend of length \<open>ds\<close> with
  \<open>nslice \<ge> 1\<close> slices, each application of the reference map increases the path length
  \<open>s\<close> by \<open>ds / nslice\<close>, and \<open>nslice\<close> applications increase it by \<open>ds\<close>, whatever
  \<open>nslice\<close> is.
\<close>

theorem Thick_ref_path_length:
  assumes "1 \<le> nslice e" and "1 \<le> nslice c"
  shows "ref_s (ExactSbend_ref beta_gamma rigidity_Tm e refpart)
           = ref_s refpart + Fin (m_ds e / of_int (nslice e))
       \<and> ref_s ((ExactSbend_ref beta_gamma rigidity_Tm e ^^ nat (nslice e)) refpart)
           = ref_s refpart + Fin (m_ds e)
       \<and> ref_s (CFbend_ref c refpart) = ref_s refpart + Fin (m_ds c / of_int (nslice c))
       \<and> ref_s ((CFbend_ref c ^^ nat (nslice c)) refpart) = ref_s refpart + Fin (m_ds c)"
proof -
  have e0: "nslice e \<noteq> 0" and c0: "nslice c \<noteq> 0"
    using assms by simp_all
  have "ref_s ((ExactSbend_ref beta_gamma rigidity_Tm e ^^ nat (nslice e)) refpart)
          = ref_s refpart + Fin (of_nat (nat (nslice e)) * (m_ds e / of_int (nslice e)))"
    by (rule funpow_ref_s) (rule ExactSbend_ref_s [OF e0])
  moreover have "ref_s ((CFbend_ref c ^^ nat (nslice c)) refpart)
          = ref_s refpart + Fin (of_nat (nat (nslice c)) * (m_ds c / of_int (nslice c)))"
    by (rule funpow_ref_s) (rule CFbend_ref_s [OF c0])
  ultimately show ?thesis
    using ExactSbend_ref_s [OF e0] CFbend_ref_s [OF c0]
      slices_total [OF assms(1)] slices_total [OF assms(2)]
    by simp
qed

theorem Thick_ref_path_length_witness:
  "1 \<le> nslice (ExactSbend 1 90 0 2) \<and> 1 \<le> nslice (CFbend 1 1 1 2)
   \<and> ref_s (ExactSbend_ref (const_accessor (Fin 1)) (const_accessor (Fin 1))
        (ExactSbend 1 90 0 2) refpart0) = Fin (1 / 2)
   \<and> ref_s ((ExactSbend_ref (const_accessor (Fin 1)) (const_accessor (Fin 1))
        (ExactSbend 1 90 0 2) ^^ 2) refpart0) = Fin 1
   \<and> ref_s (CFbend_ref (CFbend 1 1 1 2) refpart0) = Fin (1 / 2)
   \<and> ref_s ((CFbend_ref (CFbend 1 1 1 2) ^^ 2) refpart0) = Fin 1"
  using Thick_ref_path_length [of "ExactSbend 1 90 0 2" "CFbend 1 1 1 2"
      "const_accessor (Fin 1)" "const_accessor (Fin 1)" refpart0]
  by (simp add: nslice_def ExactSbend_def CFbend_def refpart0_def)

text \<open>
  C5.  The exact sector bend and the combined-function bend leave \<open>pt\<close> unchanged: the
  particle map returns the \<open>pt\<close> of the particle it was given, and the reference map the
  \<open>pt\<close> of the reference particle it was given.
\<close>

theorem pt_invariant:
  "mom_pt (ExactSbend_map beta rigidity_Tm e p refpart) = mom_pt p
   \<and> ref_pt (ExactSbend_ref beta_gamma rigidity_Tm e refpart) = ref_pt refpart
   \<and> mom_pt (CFbend_map c p refpart) = mom_pt p
   \<and> ref_pt (CFbend_ref c refpart) = ref_pt refpart"
  by (simp add: ExactSbend_map_def ExactSbend_ref_def CFbend_map_def CFbend_ref_def Let_def
      split: prod.splits)

text \<open>
  C3.  There are momenta \<open>(px, py, pt)\<close> and a reference \<open>beta\<close> in \<open>(0, 1)\<close> at which the
  argument \<open>pt\<^sup>2 - 2 / beta * pt - py\<^sup>2 + 1\<close> of the square root of the exact sector bend
  is negative.  The map checks nothing before it takes the root: at such an input it
  still returns a particle, whose \<open>px\<close>, \<open>x\<close>, \<open>y\<close> and \<open>t\<close> are the error value, for every
  element, every rigidity and every position of the particle.
\<close>

theorem ExactSbend_sqrt_negative:
  "\<exists>bet px py pt.
     0 < bet \<and> bet < 1 \<and> pt\<^sup>2 - 2 / bet * pt - py\<^sup>2 + 1 < 0
     \<and> (\<forall>rigidity_Tm e p refpart.
          mom_px (ExactSbend_map (const_accessor (Fin bet)) rigidity_Tm e
             (p\<lparr>mom_px := Fin px, mom_py := Fin py, mom_pt := Fin pt\<rparr>) refpart) = Undef
          \<and> pos_x (ExactSbend_map (const_accessor (Fin bet)) rigidity_Tm e
             (p\<lparr>mom_px := Fin px, mom_py := Fin py, mom_pt := Fin pt\<rparr>) refpart) = Undef
          \<and> pos_y (ExactSbend_map (const_accessor (Fin bet)) rigidity_Tm e
             (p\<lparr>mom_px := Fin px, mom_py := Fin py, mom_pt := Fin pt\<rparr>) refpart) = Undef
          \<and> pos_t (ExactSbend_map (const_accessor (Fin bet)) rigidity_Tm e
             (p\<lparr>mom_px := Fin px, mom_py := Fin py, mom_pt := Fin pt\<rparr>) refpart) = Undef
          \<and> mom_py (ExactSbend_map (const_accessor (Fin bet)) rigidity_Tm e
             (p\<lparr>mom_px := Fin px, mom_py := Fin py, mom_pt := Fin pt\<rparr>) refpart) = Fin py
          \<and> mom_pt (ExactSbend_map (const_accessor (Fin bet)) rigidity_Tm e
             (p\<lparr>mom_px := Fin px, mom_py := Fin py, mom_pt := Fin pt\<rparr>) refpart) = Fin pt)"
  apply (rule exI [of _ "1 / 2"], rule exI [of _ 0], rule exI [of _ 0], rule exI [of _ 1])
  apply (simp add: ExactSbend_map_def Let_def const_accessor_def)
  done

text \<open>
  C1.  A strength of exactly zero is not set apart in the combined-function bend: \<open>gx = 0\<close>
  and \<open>gy = 0\<close> fail the tests \<open>gx > 0\<close> and \<open>gy > 0\<close> and take the hyperbolic branch,
  where the frequency \<open>sqrt |strength|\<close> is zero and is divided by.  With \<open>k = 0\<close> (so
  \<open>gy = 0\<close>) the \<open>y\<close> of every particle becomes the error value; with \<open>rc = 1\<close> and
  \<open>k = - 1\<close> (so \<open>gx = 0\<close>) its \<open>x\<close>, \<open>t\<close> and \<open>px\<close> do.
\<close>

theorem CFbend_zero_strength:
  "pos_y (CFbend_map (CFbend ds rc 0 n) p refpart) = Undef
   \<and> pos_x (CFbend_map (CFbend ds 1 (- 1) n) p refpart) = Undef
   \<and> pos_t (CFbend_map (CFbend ds 1 (- 1) n) p refpart) = Undef
   \<and> mom_px (CFbend_map (CFbend ds 1 (- 1) n) p refpart) = Undef"
  by (simp add: CFbend_map_def CFbend_def Let_def split: prod.splits)

end
